theory Spec2Isabelle
  imports Main
begin

section \<open>JavaScript values and plain objects\<close>

text \<open>
  The client of \<^verbatim>\<open>src/index.ts\<close> keeps its evaluation context in a plain JavaScript
  object that is rebuilt with object spread on every change. TypeScript's types are erased
  at run time and the code itself expects ill-typed input (\<^verbatim>\<open>updateContext\<close> tests for
  \<^verbatim>\<open>appName\<close> under an \<^verbatim>\<open>@ts-expect-error\<close>), so a context is modelled as what it is at
  run time: a list of own properties in the order \<^verbatim>\<open>Object.entries\<close> enumerates them,
  holding dynamically typed values. Numbers are the non-negative integers the code
  produces (the generated session id, below \<open>10^9\<close>); they print in decimal, as JavaScript
  prints an integer below \<open>10^21\<close>. Larger numbers, which it prints with an exponent, do
  not occur.
\<close>

datatype jsval =
    JUndefined
  | JNull
  | JStr string
  | JNum nat
  | JObj "(string \<times> jsval) list"

type_synonym obj = "(string \<times> jsval) list"

text \<open>Truthiness, as \<^verbatim>\<open>if (v)\<close>, \<^verbatim>\<open>!v\<close> and \<^verbatim>\<open>a || b\<close> test it.\<close>

fun truthy :: "jsval \<Rightarrow> bool" where
  "truthy JUndefined = False"
| "truthy JNull = False"
| "truthy (JStr s) = (s \<noteq> [])"
| "truthy (JNum n) = (n \<noteq> 0)"
| "truthy (JObj es) = True"

text \<open>Decimal digits of a number, most significant first.\<close>

fun decimal :: "nat \<Rightarrow> string" where
  "decimal n =
     (if n < 10 then [''0123456789'' ! n]
      else decimal (n div 10) @ [''0123456789'' ! (n mod 10)])"

declare decimal.simps [simp del]

text \<open>
  \<^verbatim>\<open>ToString\<close>, which \<^verbatim>\<open>URLSearchParams.append\<close> applies to the value it is given.
\<close>

fun toString :: "jsval \<Rightarrow> string" where
  "toString JUndefined = ''undefined''"
| "toString JNull = ''null''"
| "toString (JStr s) = s"
| "toString (JNum n) = decimal n"
| "toString (JObj es) = ''[object Object]''"

subsection \<open>Property order\<close>

text \<open>
  An ordinary object enumerates its array-index keys first, in ascending numeric order,
  and then its other string keys in the order they were created. A key is an array index
  when it is the canonical decimal form of an integer below \<open>2^32 - 1\<close>.
\<close>

definition is_digit :: "char \<Rightarrow> bool" where
  "is_digit c = (48 \<le> (of_char c :: nat) \<and> (of_char c :: nat) \<le> 57)"

definition digits_value :: "string \<Rightarrow> int" where
  "digits_value s = foldl (\<lambda>acc c. 10 * acc + ((of_char c :: int) - 48)) 0 s"

definition array_index :: "string \<Rightarrow> int option" where
  "array_index k =
     (if k \<noteq> [] \<and> list_all is_digit k \<and> (k = ''0'' \<or> hd k \<noteq> CHR ''0'')
         \<and> length k \<le> 10 \<and> digits_value k < 4294967295
      then Some (digits_value k) else None)"

definition keys :: "obj \<Rightarrow> string list" where
  "keys ob = map fst ob"

text \<open>Reading a property: \<open>None\<close> when the object has no such own property.\<close>

definition obj_get :: "obj \<Rightarrow> string \<Rightarrow> jsval option" where
  "obj_get ob k = map_of ob k"

text \<open>\<^verbatim>\<open>o.k\<close> and \<^verbatim>\<open>o[k]\<close>: a missing property reads as \<^verbatim>\<open>undefined\<close>.\<close>

definition prop_of :: "obj \<Rightarrow> string \<Rightarrow> jsval" where
  "prop_of ob k = (case obj_get ob k of None \<Rightarrow> JUndefined | Some v \<Rightarrow> v)"

text \<open>Placing a new array-index key \<open>n\<close> among the array-index keys that lead the object.\<close>

fun obj_insert_index :: "int \<Rightarrow> string \<Rightarrow> jsval \<Rightarrow> obj \<Rightarrow> obj" where
  "obj_insert_index n k v [] = [(k, v)]"
| "obj_insert_index n k v ((k', v') # es) =
     (case array_index k' of
        Some m \<Rightarrow> if m < n then (k', v') # obj_insert_index n k v es
                 else (k, v) # (k', v') # es
      | None \<Rightarrow> (k, v) # (k', v') # es)"

text \<open>
  Defining a property (an entry of an object literal, or one property copied by a
  spread): an existing key keeps its place and takes the new value, a new key is
  created at the end of its group.
\<close>

definition obj_set :: "obj \<Rightarrow> string \<Rightarrow> jsval \<Rightarrow> obj" where
  "obj_set ob k v =
     (if k \<in> set (keys ob) then map (\<lambda>(k', v'). if k' = k then (k', v) else (k', v')) ob
      else (case array_index k of
              Some n \<Rightarrow> obj_insert_index n k v ob
            | None \<Rightarrow> ob @ [(k, v)]))"

text \<open>\<^verbatim>\<open>{ ...a, ...b }\<close>: the properties of \<open>b\<close> are defined on a copy of \<open>a\<close>, in \<open>b\<close>'s order.\<close>

definition obj_spread :: "obj \<Rightarrow> obj \<Rightarrow> obj" where
  "obj_spread a b = foldl (\<lambda>acc (k, v). obj_set acc k v) a b"

text \<open>An object literal \<^verbatim>\<open>{ k1: v1, k2: v2, ... }\<close>.\<close>

definition obj_literal :: "obj \<Rightarrow> obj" where
  "obj_literal es = obj_spread [] es"

text \<open>
  The own enumerable properties \<^verbatim>\<open>Object.entries(v)\<close> and \<^verbatim>\<open>{ ...v }\<close> read from a value: those
  of an object, the indexed characters of a string, none of a number and (for a spread)
  none of \<^verbatim>\<open>undefined\<close> and \<^verbatim>\<open>null\<close>.
\<close>

fun own_entries :: "jsval \<Rightarrow> obj" where
  "own_entries (JObj es) = es"
| "own_entries (JStr s) = map (\<lambda>(i, c). (decimal i, JStr [c])) (enumerate 0 s)"
| "own_entries v = []"

section \<open>Toggles, events and the ports of the client\<close>

record IVariant =
  variant_name :: string
  variant_enabled :: bool
  payload :: "(string \<times> string) option"

record IToggle =
  name :: string
  enabled :: bool
  variant :: IVariant
  impressionData :: bool

definition defaultVariant :: IVariant where
  "defaultVariant = \<lparr>variant_name = ''disabled'', variant_enabled = False, payload = None\<rparr>"

definition storeKey :: string where
  "storeKey = ''repo''"

definition DEFINED_FIELDS :: "string list" where
  "DEFINED_FIELDS = [''userId'', ''sessionId'', ''remoteAddress'']"

text \<open>A value that is thrown, or that a promise is rejected with.\<close>

datatype failure = Failure string

text \<open>What awaiting a promise gives: its value, or the rejection thrown at the \<^verbatim>\<open>await\<close>.\<close>

datatype 'a settled = Resolved 'a | Rejected failure

text \<open>
  The events of \<^verbatim>\<open>EVENTS\<close> with their payloads. An \<^verbatim>\<open>error\<close> carries either the object
  \<^verbatim>\<open>{ type: 'HttpError', code: response.status }\<close> or the value that was caught.
\<close>

datatype error_payload = HttpError nat | Caught failure

text \<open>
  Modelled from the spec: \<^verbatim>\<open>EventsHandler.createImpressionEvent\<close> (\<^verbatim>\<open>./events-handler\<close> is
  not among the sources). An impression carries the context, the enabled state, the
  toggle name, the evaluation kind and, for \<^verbatim>\<open>getVariant\<close>, the variant name.
\<close>

record impression =
  imp_context :: obj
  imp_enabled :: bool
  imp_featureName :: string
  imp_eventType :: string
  imp_variant :: "string option"

definition createImpressionEvent ::
  "obj \<Rightarrow> bool \<Rightarrow> string \<Rightarrow> string \<Rightarrow> string option \<Rightarrow> impression" where
  "createImpressionEvent context en featureName eventType variantName =
     \<lparr>imp_context = context, imp_enabled = en, imp_featureName = featureName,
      imp_eventType = eventType, imp_variant = variantName\<rparr>"

datatype event = INIT | ERROR error_payload | READY | UPDATE | IMPRESSION impression

text \<open>
  Modelled from the spec: \<^verbatim>\<open>notNullOrUndefined\<close> (\<^verbatim>\<open>./util\<close> is not among the sources), the
  filter on \<^verbatim>\<open>Object.entries\<close> that keeps the defined (non-null, non-undefined) fields.
\<close>

definition notNullOrUndefined :: "string \<times> jsval \<Rightarrow> bool" where
  "notNullOrUndefined e = (snd e \<noteq> JUndefined \<and> snd e \<noteq> JNull)"

text \<open>
  Modelled from the spec: the storage port (\<^verbatim>\<open>IStorageProvider\<close> and its implementations
  are not among the sources): an asynchronous key-value store with \<^verbatim>\<open>get(key)\<close> and
  \<^verbatim>\<open>save(key, value)\<close>, either of which may reject. \<open>contents\<close> holds the stored pairs, the
  latest value of a key first; \<open>get_rejects\<close> and \<open>save_rejects\<close> give the keys on which the
  operation rejects, and with what; \<open>saves\<close> lists the calls of \<^verbatim>\<open>save\<close>, oldest first. A
  \<^verbatim>\<open>save\<close> that resolves has stored the value. The client keeps a toggle list under
  \<^verbatim>\<open>'repo'\<close> and a session id under \<^verbatim>\<open>'sessionId'\<close>.
\<close>

datatype stored = StoredToggles "IToggle list" | StoredValue jsval

record storage_port =
  contents :: "(string \<times> stored) list"
  get_rejects :: "(string \<times> failure) list"
  save_rejects :: "(string \<times> failure) list"
  saves :: "(string \<times> stored) list"

definition storage_get :: "storage_port \<Rightarrow> string \<Rightarrow> stored option settled" where
  "storage_get st k =
     (case map_of (get_rejects st) k of
        Some e \<Rightarrow> Rejected e
      | None \<Rightarrow> Resolved (map_of (contents st) k))"

definition storage_save :: "storage_port \<Rightarrow> string \<Rightarrow> stored \<Rightarrow> unit settled \<times> storage_port" where
  "storage_save st k v =
     (let st1 = st\<lparr>saves := saves st @ [(k, v)]\<rparr> in
      case map_of (save_rejects st) k of
        Some e \<Rightarrow> (Rejected e, st1)
      | None \<Rightarrow> (Resolved (), st1\<lparr>contents := (k, v) # contents st\<rparr>))"

text \<open>
  \<^verbatim>\<open>get\<close> returns \<^verbatim>\<open>any\<close>. The client reads back what it saved: a toggle list under the
  cache key, a session id under the session key. A value of the other kind under a key,
  which only another writer could have put there, reads as absent.
\<close>

fun as_toggles :: "stored option \<Rightarrow> IToggle list option" where
  "as_toggles (Some (StoredToggles ts)) = Some ts"
| "as_toggles r = None"

fun as_value :: "stored option \<Rightarrow> jsval" where
  "as_value (Some (StoredValue v)) = v"
| "as_value r = JUndefined"

text \<open>
  The transport port: \<^verbatim>\<open>fetch(url, { cache, headers })\<close> resolves to a response or
  rejects. \<open>headers\<close> lists the response headers as \<^verbatim>\<open>headers.get\<close> finds them. \<open>json\<close> is
  the \<^verbatim>\<open>toggles\<close> member of the parsed body; it is rejected when the body does not parse or
  the member cannot be read. The URL is kept as its base and the list of its query
  parameters, as \<^verbatim>\<open>URL.searchParams\<close> holds them.
\<close>

record URL =
  base :: string
  searchParams :: "(string \<times> string) list"

record request =
  req_url :: URL
  req_cache :: string
  req_headers :: obj

record response =
  ok :: bool
  status :: nat
  headers :: "(string \<times> string) list"
  json :: "IToggle list settled"

type_synonym transport = "request \<Rightarrow> response settled"

section \<open>The client\<close>

text \<open>
  The fields of \<^verbatim>\<open>UnleashClient\<close>. \<open>ctx\<close> is the field \<^verbatim>\<open>context\<close>. \<open>timerRef\<close> tells whether
  the interval timer is set. \<open>fetch\<close> tells whether a fetch function was supplied or
  resolved; what it answers is given at each call. \<open>emitted\<close> lists the events passed to
  \<^verbatim>\<open>emit\<close>, oldest first, \<open>counted\<close> the calls of \<^verbatim>\<open>metrics.count\<close> and \<open>console\<close> the
  diagnostics written to the console. The subscribers of the events and the metrics
  collector are outside the model. An asynchronous method is run to its completion: the
  continuations of two methods in flight do not interleave.
\<close>

record client =
  toggles :: "IToggle list"
  ctx :: obj
  timerRef :: bool
  storage :: storage_port
  refreshInterval :: nat
  url :: URL
  clientKey :: string
  etag :: string
  fetch :: bool
  bootstrap :: "IToggle list option"
  bootstrapOverride :: bool
  headerName :: string
  customHeaders :: obj
  readyEventEmitted :: bool
  emitted :: "event list"
  counted :: "(string \<times> bool) list"
  console :: "string list"

definition emit :: "event \<Rightarrow> client \<Rightarrow> client" where
  "emit e s = s\<lparr>emitted := emitted s @ [e]\<rparr>"

text \<open>
  Modelled from the spec: the metrics collector (\<^verbatim>\<open>./metrics\<close> is not among the sources),
  whose \<^verbatim>\<open>count(toggleName, enabled)\<close> records one evaluation.
\<close>

definition metrics_count :: "string \<Rightarrow> bool \<Rightarrow> client \<Rightarrow> client" where
  "metrics_count toggleName en s = s\<lparr>counted := counted s @ [(toggleName, en)]\<rparr>"

definition console_log :: "string \<Rightarrow> client \<Rightarrow> client" where
  "console_log msg s = s\<lparr>console := console s @ [msg]\<rparr>"

subsection \<open>Construction\<close>

text \<open>
  The configuration. An optional field with a default is an option; \<open>cfg_url\<close> is \<open>None\<close>
  when the URL is missing or empty, \<open>cfg_fetch\<close> tells whether a fetch function is at
  hand after \<^verbatim>\<open>resolveFetch\<close>, and \<open>cfg_storageProvider\<close> is the provider in use.
\<close>

record IConfig =
  cfg_storageProvider :: storage_port
  cfg_url :: "URL option"
  cfg_clientKey :: string
  cfg_disableRefresh :: "bool option"
  cfg_refreshInterval :: "nat option"
  cfg_appName :: string
  cfg_environment :: "string option"
  cfg_context :: "obj option"
  cfg_fetch :: bool
  cfg_bootstrap :: "IToggle list option"
  cfg_bootstrapOverride :: "bool option"
  cfg_headerName :: "string option"
  cfg_customHeaders :: "obj option"

definition or_default :: "'a option \<Rightarrow> 'a \<Rightarrow> 'a" where
  "or_default v d = (case v of None \<Rightarrow> d | Some x \<Rightarrow> x)"

text \<open>The synchronous part of the constructor: it throws on a missing required field.\<close>

definition construct :: "IConfig \<Rightarrow> failure + client" where
  "construct cfg =
     (case cfg_url cfg of None \<Rightarrow> Inl (Failure ''url is required'') | Some u \<Rightarrow>
      if cfg_clientKey cfg = [] then Inl (Failure ''clientKey is required'')
      else if cfg_appName cfg = [] then Inl (Failure ''appName is required.'')
      else
        let s = \<lparr>toggles = (case cfg_bootstrap cfg of
                               Some b \<Rightarrow> if length b > 0 then b else []
                             | None \<Rightarrow> []),
                 ctx = obj_spread
                         (obj_literal
                            [(''appName'', JStr (cfg_appName cfg)),
                             (''environment'', JStr (or_default (cfg_environment cfg) ''default''))])
                         (or_default (cfg_context cfg) []),
                 timerRef = False,
                 storage = cfg_storageProvider cfg,
                 refreshInterval =
                   (if or_default (cfg_disableRefresh cfg) False then 0
                    else or_default (cfg_refreshInterval cfg) 30 * 1000),
                 url = u,
                 clientKey = cfg_clientKey cfg,
                 etag = [],
                 fetch = cfg_fetch cfg,
                 bootstrap = (case cfg_bootstrap cfg of
                                Some b \<Rightarrow> if length b > 0 then Some b else None
                              | None \<Rightarrow> None),
                 bootstrapOverride = or_default (cfg_bootstrapOverride cfg) True,
                 headerName = or_default (cfg_headerName cfg) ''Authorization'',
                 customHeaders = or_default (cfg_customHeaders cfg) [],
                 readyEventEmitted = False,
                 emitted = [],
                 counted = [],
                 console = []\<rparr>
        in Inr (if cfg_fetch cfg then s
                else console_log ''Unleash: You must either provide your own \"fetch\" implementation or run in an environment where \"fetch\" is available.'' s))"

subsection \<open>Initialisation\<close>

text \<open>
  \<^verbatim>\<open>resolveSessionId\<close>. \<open>rnd\<close> is the value of
  \<^verbatim>\<open>Math.floor(Math.random() * 1_000_000_000)\<close>, should it be drawn.
\<close>

definition resolveSessionId :: "nat \<Rightarrow> client \<Rightarrow> jsval settled \<times> client" where
  "resolveSessionId rnd s =
     (if truthy (prop_of (ctx s) ''sessionId'') then (Resolved (prop_of (ctx s) ''sessionId''), s)
      else
        (case storage_get (storage s) ''sessionId'' of
           Rejected e \<Rightarrow> (Rejected e, s)
         | Resolved r \<Rightarrow>
             if \<not> truthy (as_value r) then
               (case storage_save (storage s) ''sessionId'' (StoredValue (JNum rnd)) of
                  (Rejected e, st) \<Rightarrow> (Rejected e, s\<lparr>storage := st\<rparr>)
                | (Resolved u, st) \<Rightarrow> (Resolved (JNum rnd), s\<lparr>storage := st\<rparr>))
             else (Resolved (as_value r), s)))"

text \<open>
  \<^verbatim>\<open>init\<close>. Its first \<^verbatim>\<open>await\<close> comes before any field that the constructor sets after
  starting it is read, so it runs on the fully constructed client.
\<close>

definition init :: "nat \<Rightarrow> client \<Rightarrow> unit settled \<times> client" where
  "init rnd s0 =
     (case resolveSessionId rnd s0 of
        (Rejected e, s1) \<Rightarrow> (Rejected e, s1)
      | (Resolved sessionId, s1) \<Rightarrow>
          let s2 = s1\<lparr>ctx := obj_spread (obj_literal [(''sessionId'', sessionId)]) (ctx s1)\<rparr> in
          (case storage_get (storage s2) storeKey of
             Rejected e \<Rightarrow> (Rejected e, s2)
           | Resolved r \<Rightarrow>
               let s3 = s2\<lparr>toggles := or_default (as_toggles r) []\<rparr> in
               (case bootstrap s3 of
                  Some b \<Rightarrow>
                    if bootstrapOverride s3 \<or> length (toggles s3) = 0 then
                      (case storage_save (storage s3) storeKey (StoredToggles b) of
                         (Rejected e, st) \<Rightarrow> (Rejected e, s3\<lparr>storage := st\<rparr>)
                       | (Resolved u, st) \<Rightarrow>
                           (Resolved (),
                            emit INIT (emit READY (s3\<lparr>storage := st, toggles := b\<rparr>))))
                    else (Resolved (), emit INIT s3)
                | None \<Rightarrow> (Resolved (), emit INIT s3))))"

text \<open>
  The promise \<^verbatim>\<open>ready\<close> of the constructor: it resolves when \<^verbatim>\<open>init\<close> does, and a
  rejection of \<^verbatim>\<open>init\<close> is written to the console and emitted as an \<^verbatim>\<open>error\<close>.
\<close>

definition ready :: "nat \<Rightarrow> client \<Rightarrow> client" where
  "ready rnd s =
     (case init rnd s of
        (Resolved u, s') \<Rightarrow> s'
      | (Rejected e, s') \<Rightarrow> emit (ERROR (Caught e)) (console_log ''error'' s'))"

definition new_UnleashClient :: "IConfig \<Rightarrow> nat \<Rightarrow> failure + client" where
  "new_UnleashClient cfg rnd =
     (case construct cfg of Inl e \<Rightarrow> Inl e | Inr s \<Rightarrow> Inr (ready rnd s))"

subsection \<open>Synchronisation\<close>

definition getHeaders :: "client \<Rightarrow> obj" where
  "getHeaders s =
     foldl (\<lambda>headers (n, v). obj_set headers n v)
       (obj_literal
          [(headerName s, JStr (clientKey s)),
           (''Accept'', JStr ''application/json''),
           (''Content-Type'', JStr ''application/json''),
           (''If-None-Match'', JStr (etag s))])
       (filter notNullOrUndefined (customHeaders s))"

text \<open>
  The two nested \<^verbatim>\<open>forEach\<close> loops of \<^verbatim>\<open>fetchToggles\<close>, each appending to the search
  parameters of \<^verbatim>\<open>urlWithQuery\<close>.
\<close>

definition append_properties :: "(string \<times> string) list \<Rightarrow> jsval \<Rightarrow> (string \<times> string) list" where
  "append_properties params contextValue =
     foldl (\<lambda>ps (propertyKey, propertyValue).
              ps @ [(''properties['' @ propertyKey @ '']'', toString propertyValue)])
       params (filter notNullOrUndefined (own_entries contextValue))"

definition append_context :: "(string \<times> string) list \<Rightarrow> obj \<Rightarrow> (string \<times> string) list" where
  "append_context params context =
     foldl (\<lambda>ps (contextKey, contextValue).
              if contextKey = ''properties'' \<and> truthy contextValue
              then append_properties ps contextValue
              else ps @ [(contextKey, toString contextValue)])
       params (filter notNullOrUndefined context)"

definition urlWithQuery :: "client \<Rightarrow> URL" where
  "urlWithQuery s = (url s)\<lparr>searchParams := append_context (searchParams (url s)) (ctx s)\<rparr>"

definition fetch_request :: "client \<Rightarrow> request" where
  "fetch_request s =
     \<lparr>req_url = urlWithQuery s, req_cache = ''no-cache'', req_headers = getHeaders s\<rparr>"

definition storeToggles :: "IToggle list \<Rightarrow> client \<Rightarrow> unit settled \<times> client" where
  "storeToggles ts s =
     (let s1 = emit UPDATE (s\<lparr>toggles := ts\<rparr>) in
      case storage_save (storage s1) storeKey (StoredToggles ts) of
        (Rejected e, st) \<Rightarrow> (Rejected e, s1\<lparr>storage := st\<rparr>)
      | (Resolved u, st) \<Rightarrow> (Resolved (), s1\<lparr>storage := st\<rparr>))"

text \<open>
  The \<^verbatim>\<open>try\<close> block of \<^verbatim>\<open>fetchToggles\<close>: what it has done to the client by the time it
  completes or throws. \<open>net\<close> is what the fetch function answers to the request.
\<close>

definition fetchToggles_try :: "transport \<Rightarrow> client \<Rightarrow> unit settled \<times> client" where
  "fetchToggles_try net s =
     (case net (fetch_request s) of
        Rejected e \<Rightarrow> (Rejected e, s)
      | Resolved resp \<Rightarrow>
          if ok resp \<and> status resp \<noteq> 304 then
            let s1 = s\<lparr>etag := or_default (map_of (headers resp) ''ETag'') []\<rparr> in
            (case json resp of
               Rejected e \<Rightarrow> (Rejected e, s1)
             | Resolved ts \<Rightarrow>
                 (case storeToggles ts s1 of
                    (Rejected e, s2) \<Rightarrow> (Rejected e, s2)
                  | (Resolved u, s2) \<Rightarrow>
                      if bootstrap s2 = None \<and> \<not> readyEventEmitted s2
                      then (Resolved (), (emit READY s2)\<lparr>readyEventEmitted := True\<rparr>)
                      else (Resolved (), s2)))
          else if \<not> ok resp \<and> status resp \<noteq> 304 then
            (Resolved (),
             emit (ERROR (HttpError (status resp)))
               (console_log ''Unleash: Fetching feature toggles did not have an ok response'' s))
          else (Resolved (), s))"

definition fetchToggles :: "transport \<Rightarrow> client \<Rightarrow> unit settled \<times> client" where
  "fetchToggles net s =
     (if fetch s then
        (case fetchToggles_try net s of
           (Rejected e, s') \<Rightarrow>
             (Resolved (),
              emit (ERROR (Caught e)) (console_log ''Unleash: unable to fetch feature toggles'' s'))
         | (Resolved u, s') \<Rightarrow> (Resolved (), s'))
      else (Resolved (), s))"

subsection \<open>Evaluation and context\<close>

definition getAllToggles :: "client \<Rightarrow> IToggle list" where
  "getAllToggles s = toggles s"

definition getContext :: "client \<Rightarrow> obj" where
  "getContext s = obj_spread [] (ctx s)"

definition isEnabled :: "string \<Rightarrow> client \<Rightarrow> bool \<times> client" where
  "isEnabled toggleName s =
     (let toggle = find (\<lambda>t. name t = toggleName) (toggles s);
          en = (case toggle of Some t \<Rightarrow> enabled t | None \<Rightarrow> False);
          s1 = metrics_count toggleName en s
      in (en,
          case toggle of
            Some t \<Rightarrow>
              if impressionData t
              then emit (IMPRESSION
                           (createImpressionEvent (ctx s1) en toggleName ''isEnabled'' None)) s1
              else s1
          | None \<Rightarrow> s1))"

definition getVariant :: "string \<Rightarrow> client \<Rightarrow> IVariant \<times> client" where
  "getVariant toggleName s =
     (case find (\<lambda>t. name t = toggleName) (toggles s) of
        Some toggle \<Rightarrow>
          let s1 = metrics_count toggleName True s in
          (variant toggle,
           if impressionData toggle
           then emit (IMPRESSION
                        (createImpressionEvent (ctx s1) (enabled toggle) toggleName ''getVariant''
                           (Some (variant_name (variant toggle))))) s1
           else s1)
      | None \<Rightarrow> (defaultVariant, metrics_count toggleName False s))"

definition updateContext :: "transport \<Rightarrow> obj \<Rightarrow> client \<Rightarrow> unit settled \<times> client" where
  "updateContext net context s =
     (let s1 = (if truthy (prop_of context ''appName'') \<or> truthy (prop_of context ''environment'')
                then console_log ''appName and environment are static. They can't be updated with updateContext.'' s
                else s);
          staticContext = obj_literal
                            [(''environment'', prop_of (ctx s1) ''environment''),
                             (''appName'', prop_of (ctx s1) ''appName'')];
          s2 = s1\<lparr>ctx := obj_spread (obj_spread [] staticContext) context\<rparr>
      in if timerRef s2 then fetchToggles net s2 else (Resolved (), s2))"

text \<open>
  \<^verbatim>\<open>setContextField\<close> starts a synchronisation without awaiting it; the model runs it to
  completion at once.
\<close>

definition setContextField :: "transport \<Rightarrow> string \<Rightarrow> jsval \<Rightarrow> client \<Rightarrow> client" where
  "setContextField net field v s =
     (let s1 = (if field \<in> set DEFINED_FIELDS
                then s\<lparr>ctx := obj_set (obj_spread [] (ctx s)) field v\<rparr>
                else
                  let properties =
                        obj_set (obj_spread [] (own_entries (prop_of (ctx s) ''properties''))) field v
                  in s\<lparr>ctx := obj_set (obj_spread [] (ctx s)) ''properties'' (JObj properties)\<rparr>)
      in if timerRef s1 then snd (fetchToggles net s1) else s1)"

subsection \<open>Starting and stopping\<close>

text \<open>
  \<^verbatim>\<open>start\<close> after \<^verbatim>\<open>ready\<close> has resolved, and \<^verbatim>\<open>stop\<close>. The metrics collector they start
  and stop is outside the model.
\<close>

definition start :: "transport \<Rightarrow> client \<Rightarrow> client" where
  "start net s =
     (if timerRef s
      then console_log ''Unleash SDK has already started, if you want to restart the SDK you should call client.stop() before starting again.'' s
      else
        let interval = refreshInterval s;
            s1 = snd (fetchToggles net s)
        in if interval > 0 then s1\<lparr>timerRef := True\<rparr> else s1)"

definition stop :: "client \<Rightarrow> client" where
  "stop s = s\<lparr>timerRef := False\<rparr>"

subsection \<open>A client's lifetime\<close>

text \<open>
  What can happen to a client once \<^verbatim>\<open>ready\<close> has resolved: the calls of its public
  methods, and the firing of the interval timer, which calls \<^verbatim>\<open>fetchToggles\<close> while the
  timer is set. Each carries what the transport answers, should it be asked.
\<close>

datatype action =
    Start transport
  | Stop
  | Tick transport
  | UpdateContext transport obj
  | SetContextField transport string jsval
  | IsEnabled string
  | GetVariant string

fun step :: "action \<Rightarrow> client \<Rightarrow> client" where
  "step (Start net) s = start net s"
| "step Stop s = stop s"
| "step (Tick net) s = (if timerRef s then snd (fetchToggles net s) else s)"
| "step (UpdateContext net p) s = snd (updateContext net p s)"
| "step (SetContextField net field v) s = setContextField net field v s"
| "step (IsEnabled toggleName) s = snd (isEnabled toggleName s)"
| "step (GetVariant toggleName) s = snd (getVariant toggleName s)"

definition run :: "action list \<Rightarrow> client \<Rightarrow> client" where
  "run acts s = foldl (\<lambda>s' a. step a s') s acts"

text \<open>
  The latch on \<^verbatim>\<open>ready\<close>: it has been emitted at most once, and not at all while no
  bootstrap is configured and \<^verbatim>\<open>readyEventEmitted\<close> is still false.
\<close>

definition ready_latch :: "client \<Rightarrow> bool" where
  "ready_latch s \<longleftrightarrow>
     count_list (emitted s) READY \<le> 1
     \<and> (bootstrap s = None \<and> \<not> readyEventEmitted s \<longrightarrow> READY \<notin> set (emitted s))"

section \<open>The query of a context, stated by field\<close>

text \<open>
  What the request URL is to carry, written as the description of \<^verbatim>\<open>fetchToggles\<close> has
  it and not as its loops compute it: each defined field of the context gives one
  parameter under its own name, except that the field \<^verbatim>\<open>properties\<close>, when it holds
  something, gives one parameter \<^verbatim>\<open>properties[key]\<close> for each of its defined entries.
\<close>

definition property_parameters :: "jsval \<Rightarrow> (string \<times> string) list" where
  "property_parameters v =
     map (\<lambda>e. (''properties['' @ fst e @ '']'', toString (snd e)))
       (filter notNullOrUndefined (own_entries v))"

definition field_parameters :: "string \<times> jsval \<Rightarrow> (string \<times> string) list" where
  "field_parameters e =
     (if fst e = ''properties'' \<and> truthy (snd e) then property_parameters (snd e)
      else [(fst e, toString (snd e))])"

definition context_query :: "obj \<Rightarrow> (string \<times> string) list" where
  "context_query c = concat (map field_parameters (filter notNullOrUndefined c))"

section \<open>A client to run the operations on\<close>

definition toggle_a :: IToggle where
  "toggle_a = \<lparr>name = ''flagA'', enabled = True,
                variant = \<lparr>variant_name = ''blue'', variant_enabled = True, payload = None\<rparr>,
                impressionData = True\<rparr>"

definition toggle_b :: IToggle where
  "toggle_b = \<lparr>name = ''flagB'', enabled = False,
                variant = \<lparr>variant_name = ''disabled'', variant_enabled = False, payload = None\<rparr>,
                impressionData = False\<rparr>"

text \<open>A provider that rejects nothing and holds the given cache under \<^verbatim>\<open>'repo'\<close>.\<close>

definition storage_with :: "IToggle list option \<Rightarrow> storage_port" where
  "storage_with cache =
     \<lparr>contents = (case cache of None \<Rightarrow> [] | Some ts \<Rightarrow> [(''repo'', StoredToggles ts)]),
      get_rejects = [], save_rejects = [], saves = []\<rparr>"

definition demo_config :: IConfig where
  "demo_config =
     \<lparr>cfg_storageProvider = storage_with None,
      cfg_url = Some \<lparr>base = ''https://proxy.example/api'', searchParams = []\<rparr>,
      cfg_clientKey = ''key'',
      cfg_disableRefresh = None,
      cfg_refreshInterval = None,
      cfg_appName = ''web'',
      cfg_environment = None,
      cfg_context = Some [(''userId'', JStr ''u1''),
                          (''properties'', JObj [(''plan'', JStr ''pro'')])],
      cfg_fetch = True,
      cfg_bootstrap = None,
      cfg_bootstrapOverride = None,
      cfg_headerName = None,
      cfg_customHeaders = None\<rparr>"

text \<open>The client \<^verbatim>\<open>new UnleashClient(demo_config)\<close> once \<^verbatim>\<open>ready\<close> has resolved.\<close>

definition demo_client :: client where
  "demo_client =
     \<lparr>toggles = [],
      ctx = [(''sessionId'', JNum 7), (''appName'', JStr ''web''),
             (''environment'', JStr ''default''), (''userId'', JStr ''u1''),
             (''properties'', JObj [(''plan'', JStr ''pro'')])],
      timerRef = False,
      storage = \<lparr>contents = [(''sessionId'', StoredValue (JNum 7))],
                 get_rejects = [], save_rejects = [],
                 saves = [(''sessionId'', StoredValue (JNum 7))]\<rparr>,
      refreshInterval = 30000,
      url = \<lparr>base = ''https://proxy.example/api'', searchParams = []\<rparr>,
      clientKey = ''key'',
      etag = [],
      fetch = True,
      bootstrap = None,
      bootstrapOverride = True,
      headerName = ''Authorization'',
      customHeaders = [],
      readyEventEmitted = False,
      emitted = [INIT],
      counted = [],
      console = []\<rparr>"

text \<open>A transport that answers every request with the same response.\<close>

definition answers :: "response \<Rightarrow> transport" where
  "answers resp = (\<lambda>req. Resolved resp)"

definition ok_response :: "string option \<Rightarrow> IToggle list \<Rightarrow> response" where
  "ok_response tag ts =
     \<lparr>ok = True, status = 200,
      headers = (case tag of None \<Rightarrow> [] | Some t \<Rightarrow> [(''ETag'', t)]),
      json = Resolved ts\<rparr>"

definition a_response :: "bool \<Rightarrow> nat \<Rightarrow> string option \<Rightarrow> IToggle list settled \<Rightarrow> response" where
  "a_response is_ok code tag body =
     \<lparr>ok = is_ok, status = code,
      headers = (case tag of None \<Rightarrow> [] | Some t \<Rightarrow> [(''ETag'', t)]),
      json = body\<rparr>"

text \<open>A transport whose request is rejected.\<close>

definition rejecting :: "failure \<Rightarrow> transport" where
  "rejecting e = (\<lambda>req. Rejected e)"

text \<open>The configuration \<open>demo_config\<close> with a cache in the storage, a bootstrap and an override flag.\<close>

definition config_with :: "IToggle list option \<Rightarrow> IToggle list option \<Rightarrow> bool option \<Rightarrow> IConfig" where
  "config_with cache b override =
     demo_config\<lparr>cfg_storageProvider := storage_with cache, cfg_bootstrap := b,
       cfg_bootstrapOverride := override\<rparr>"

lemma obj_get_insert_index:
  "obj_get (obj_insert_index n k v ob) k' = (if k' = k then Some v else obj_get ob k')"
  if "k \<notin> set (keys ob)"
  using that
  by (induction ob) (auto simp: obj_get_def keys_def split: option.splits)

lemma obj_get_set:
  "obj_get (obj_set ob k v) k' = (if k' = k then Some v else obj_get ob k')"
proof (cases "k \<in> set (keys ob)")
  case True
  have "map_of (map (\<lambda>(k', v'). if k' = k then (k', v) else (k', v')) es) k' =
        (if k' = k then (if k \<in> fst ` set es then Some v else None) else map_of es k')" for es
    by (induction es) (auto simp: image_iff, force)
  with True show ?thesis
    by (simp add: obj_set_def obj_get_def keys_def)
next
  case False
  then have none: "map_of ob k = None"
    by (simp add: keys_def map_of_eq_None_iff)
  show ?thesis
  proof (cases "array_index k")
    case None
    with False none show ?thesis
      by (simp add: obj_set_def obj_get_def map_add_def split: option.splits)
  next
    case (Some n)
    with False show ?thesis
      by (simp add: obj_set_def obj_get_insert_index)
  qed
qed

lemma obj_get_spread:
  "obj_get (obj_spread a b) k = (case obj_get b k of Some v \<Rightarrow> Some v | None \<Rightarrow> obj_get a k)"
  if "distinct (keys b)"
proof -
  have "distinct (map fst b) \<Longrightarrow>
        obj_get (foldl (\<lambda>acc (k, v). obj_set acc k v) a b) k =
        (case map_of b k of Some v \<Rightarrow> Some v | None \<Rightarrow> obj_get a k)" for a
  proof (induction b arbitrary: a rule: rev_induct)
    case Nil
    then show ?case by simp
  next
    case (snoc e b)
    obtain k' v' where e: "e = (k', v')" by (cases e)
    from snoc.prems have d: "distinct (map fst b)" and n: "map_of b k' = None"
      by (auto simp: e map_of_eq_None_iff)
    show ?case
      using n by (auto simp: e obj_get_set snoc.IH [OF d] map_of_append map_add_def
          split: option.splits)
  qed
  with that show ?thesis by (simp add: obj_spread_def obj_get_def keys_def)
qed

section \<open>What the operations leave alone\<close>

lemma array_index_appName: "array_index ''appName'' = None"
  by (simp add: array_index_def is_digit_def)

lemma array_index_environment: "array_index ''environment'' = None"
  by (simp add: array_index_def is_digit_def)

lemma staticContext_literal:
  "obj_spread [] (obj_literal [(''environment'', e), (''appName'', a)]) =
     [(''environment'', e), (''appName'', a)]"
  by (simp add: obj_literal_def obj_spread_def obj_set_def keys_def array_index_appName
      array_index_environment)

lemma storeToggles_frame:
  assumes "storeToggles ts s = (r, s')"
  shows "ctx s' = ctx s" and "etag s' = etag s" and "bootstrap s' = bootstrap s"
    and "readyEventEmitted s' = readyEventEmitted s" and "fetch s' = fetch s"
    and "toggles s' = ts" and "timerRef s' = timerRef s"
  using assms
  by (auto simp: storeToggles_def storage_save_def emit_def Let_def split: option.splits)

lemma fetchToggles_try_ctx:
  assumes "fetchToggles_try net s = (r, s')"
  shows "ctx s' = ctx s"
  using assms
  by (auto simp: fetchToggles_try_def emit_def console_log_def Let_def
      dest: storeToggles_frame(1) split: settled.splits prod.splits if_splits)

lemma fetchToggles_ctx: "ctx (snd (fetchToggles net s)) = ctx s"
  by (auto simp: fetchToggles_def emit_def console_log_def
      dest: fetchToggles_try_ctx split: settled.splits prod.splits)

lemma resolveSessionId_frame:
  assumes "resolveSessionId rnd s = (r, s')"
  shows "etag s' = etag s" and "toggles s' = toggles s" and "bootstrap s' = bootstrap s"
    and "bootstrapOverride s' = bootstrapOverride s" and "emitted s' = emitted s"
    and "ctx s' = ctx s" and "readyEventEmitted s' = readyEventEmitted s"
  using assms
  by (auto simp: resolveSessionId_def split: settled.splits prod.splits if_splits)

lemma init_etag:
  assumes "init rnd s = (r, s')"
  shows "etag s' = etag s"
proof -
  obtain r1 s1 where r1: "resolveSessionId rnd s = (r1, s1)"
    by (cases "resolveSessionId rnd s")
  from assms r1 resolveSessionId_frame(1) [OF r1] show ?thesis
    by (auto simp: init_def emit_def Let_def
        split: settled.splits prod.splits option.splits if_splits)
qed

lemma ready_etag: "etag (ready rnd s) = etag s"
  by (auto simp: ready_def emit_def console_log_def dest: init_etag
      split: settled.splits prod.splits)

lemma construct_fields:
  assumes "construct cfg = Inr s"
  shows "storage s = cfg_storageProvider cfg" and "emitted s = []"
    and "bootstrapOverride s = or_default (cfg_bootstrapOverride cfg) True"
    and "bootstrap s = (case cfg_bootstrap cfg of
                          Some b \<Rightarrow> if length b > 0 then Some b else None
                        | None \<Rightarrow> None)"
    and "etag s = []"
  using assms
  by (auto simp: construct_def console_log_def Let_def split: option.splits if_splits)

lemma construct_empty_bootstrap:
  assumes "cfg_bootstrap cfg = Some []"
  shows "construct cfg = construct (cfg\<lparr>cfg_bootstrap := None\<rparr>)"
  using assms by (auto simp: construct_def Let_def split: option.splits)

section \<open>Initialisation with a storage that rejects nothing\<close>

lemma resolveSessionId_resolves:
  assumes "get_rejects (storage s) = []" and "save_rejects (storage s) = []"
  shows "\<exists>sid st. resolveSessionId rnd s = (Resolved sid, s\<lparr>storage := st\<rparr>)
           \<and> get_rejects st = [] \<and> save_rejects st = []
           \<and> map_of (contents st) storeKey = map_of (contents (storage s)) storeKey"
proof (cases "truthy (prop_of (ctx s) ''sessionId'')
    \<or> truthy (as_value (map_of (contents (storage s)) ''sessionId''))")
  case True
  with assms have "\<exists>sid. resolveSessionId rnd s = (Resolved sid, s\<lparr>storage := storage s\<rparr>)"
    by (auto simp: resolveSessionId_def storage_get_def)
  with assms show ?thesis by blast
next
  case False
  let ?st = "(storage s)\<lparr>saves := saves (storage s) @ [(''sessionId'', StoredValue (JNum rnd))],
               contents := (''sessionId'', StoredValue (JNum rnd)) # contents (storage s)\<rparr>"
  from False assms have "resolveSessionId rnd s = (Resolved (JNum rnd), s\<lparr>storage := ?st\<rparr>)"
    by (simp add: resolveSessionId_def storage_get_def storage_save_def Let_def)
  moreover from assms have "get_rejects ?st = [] \<and> save_rejects ?st = []
      \<and> map_of (contents ?st) storeKey = map_of (contents (storage s)) storeKey"
    by (simp add: storeKey_def)
  ultimately show ?thesis by blast
qed

lemma init_resolves:
  assumes "get_rejects (storage s) = []" and "save_rejects (storage s) = []"
    and "cache = or_default (as_toggles (map_of (contents (storage s)) storeKey)) []"
  shows "fst (init rnd s) = Resolved ()
         \<and> (case bootstrap s of
               Some b \<Rightarrow>
                 if bootstrapOverride s \<or> cache = []
                 then toggles (snd (init rnd s)) = b
                      \<and> emitted (snd (init rnd s)) = emitted s @ [READY, INIT]
                      \<and> map_of (contents (storage (snd (init rnd s)))) storeKey =
                          Some (StoredToggles b)
                 else toggles (snd (init rnd s)) = cache
                      \<and> emitted (snd (init rnd s)) = emitted s @ [INIT]
                      \<and> map_of (contents (storage (snd (init rnd s)))) storeKey =
                          map_of (contents (storage s)) storeKey
             | None \<Rightarrow>
                 toggles (snd (init rnd s)) = cache
                 \<and> emitted (snd (init rnd s)) = emitted s @ [INIT])"
proof -
  from resolveSessionId_resolves [OF assms(1,2), of rnd]
  obtain sid st where r: "resolveSessionId rnd s = (Resolved sid, s\<lparr>storage := st\<rparr>)"
    and st: "get_rejects st = []" "save_rejects st = []"
      "map_of (contents st) storeKey = map_of (contents (storage s)) storeKey"
    by blast
  show ?thesis
    using st assms(3)
    by (simp add: init_def r storage_get_def storage_save_def emit_def Let_def
        split: option.splits)
qed

section \<open>The loops of the request URL\<close>

lemma append_properties_eq: "append_properties ps v = ps @ property_parameters v"
proof -
  have "foldl (\<lambda>ps (propertyKey, propertyValue).
              ps @ [(''properties['' @ propertyKey @ '']'', toString propertyValue)]) ps es =
        ps @ map (\<lambda>e. (''properties['' @ fst e @ '']'', toString (snd e))) es" for es
    by (induction es arbitrary: ps) (auto simp: case_prod_beta)
  then show ?thesis
    by (simp add: append_properties_def property_parameters_def)
qed

lemma append_context_eq: "append_context ps c = ps @ context_query c"
proof -
  have "foldl (\<lambda>ps (contextKey, contextValue).
              if contextKey = ''properties'' \<and> truthy contextValue
              then append_properties ps contextValue
              else ps @ [(contextKey, toString contextValue)]) ps es =
        ps @ concat (map field_parameters es)" for es
    by (induction es arbitrary: ps)
      (auto simp: case_prod_beta field_parameters_def append_properties_eq)
  then show ?thesis
    by (simp add: append_context_def context_query_def)
qed

section \<open>Synchronisation: the success path\<close>

text \<open>
  C1. When a fetch function is at hand and it answers with an ok response whose status is
  not 304 and whose body holds the toggle list \<open>T\<close>, \<^verbatim>\<open>fetchToggles\<close> completes, the
  toggles are replaced by \<open>T\<close>, so that \<^verbatim>\<open>getAllToggles\<close> returns \<open>T\<close> in the same order,
  \<^verbatim>\<open>storage.save\<close> is called once, with the key \<^verbatim>\<open>'repo'\<close> and \<open>T\<close>, and where that call
  resolves \<open>T\<close> is what the storage holds under the key, and exactly one \<^verbatim>\<open>update\<close> event is
  emitted: the events emitted are \<^verbatim>\<open>update\<close>, followed by \<^verbatim>\<open>ready\<close> when it is due, or by
  an \<^verbatim>\<open>error\<close> when the save was rejected.
\<close>

theorem fetchToggles_success:
  assumes "fetch s" and "net (fetch_request s) = Resolved resp"
    and "ok resp" and "status resp \<noteq> 304" and "json resp = Resolved T"
  shows "fst (fetchToggles net s) = Resolved ()
         \<and> toggles (snd (fetchToggles net s)) = T
         \<and> getAllToggles (snd (fetchToggles net s)) = T
         \<and> saves (storage (snd (fetchToggles net s))) =
             saves (storage s) @ [(storeKey, StoredToggles T)]
         \<and> (map_of (save_rejects (storage s)) storeKey = None \<longrightarrow>
              map_of (contents (storage (snd (fetchToggles net s)))) storeKey =
                Some (StoredToggles T))
         \<and> emitted (snd (fetchToggles net s)) =
             emitted s @ UPDATE #
               (case map_of (save_rejects (storage s)) storeKey of
                  Some e \<Rightarrow> [ERROR (Caught e)]
                | None \<Rightarrow> if bootstrap s = None \<and> \<not> readyEventEmitted s then [READY] else [])
         \<and> count_list (drop (length (emitted s)) (emitted (snd (fetchToggles net s)))) UPDATE = 1"
  using assms
  by (simp add: fetchToggles_def fetchToggles_try_def storeToggles_def storage_save_def
      getAllToggles_def emit_def console_log_def Let_def split: option.splits)

theorem fetchToggles_success_witness:
  "fetch demo_client
   \<and> answers (ok_response (Some ''v1'') [toggle_a, toggle_b]) (fetch_request demo_client) =
       Resolved (ok_response (Some ''v1'') [toggle_a, toggle_b])
   \<and> ok (ok_response (Some ''v1'') [toggle_a, toggle_b])
   \<and> status (ok_response (Some ''v1'') [toggle_a, toggle_b]) \<noteq> 304
   \<and> json (ok_response (Some ''v1'') [toggle_a, toggle_b]) = Resolved [toggle_a, toggle_b]
   \<and> map_of (save_rejects (storage demo_client)) storeKey = None
   \<and> getAllToggles (snd (fetchToggles (answers (ok_response (Some ''v1'') [toggle_a, toggle_b]))
         demo_client)) = [toggle_a, toggle_b]
   \<and> map_of (contents (storage (snd (fetchToggles
         (answers (ok_response (Some ''v1'') [toggle_a, toggle_b])) demo_client)))) ''repo'' =
       Some (StoredToggles [toggle_a, toggle_b])
   \<and> emitted (snd (fetchToggles (answers (ok_response (Some ''v1'') [toggle_a, toggle_b]))
         demo_client)) = [INIT, UPDATE, READY]"
  using fetchToggles_success [of demo_client "answers (ok_response (Some ''v1'') [toggle_a, toggle_b])"
      "ok_response (Some ''v1'') [toggle_a, toggle_b]" "[toggle_a, toggle_b]"]
  by (simp add: answers_def ok_response_def demo_client_def storeKey_def)

section \<open>Evaluation of a toggle that is not in the snapshot\<close>

text \<open>
  C2. For a toggle name that no toggle of the snapshot bears, \<^verbatim>\<open>isEnabled\<close> returns false
  and \<^verbatim>\<open>getVariant\<close> returns the variant \<^verbatim>\<open>{ name: 'disabled', enabled: false }\<close>; either call
  records the count \<open>(name, False)\<close> with the metrics collector and changes nothing else
  of the client, so no event, and no impression in particular, is emitted.
\<close>

theorem absent_toggle:
  assumes "\<forall>t \<in> set (toggles s). name t \<noteq> toggleName"
  shows "isEnabled toggleName s = (False, s\<lparr>counted := counted s @ [(toggleName, False)]\<rparr>)
         \<and> getVariant toggleName s =
             (\<lparr>variant_name = ''disabled'', variant_enabled = False, payload = None\<rparr>,
              s\<lparr>counted := counted s @ [(toggleName, False)]\<rparr>)
         \<and> emitted (snd (isEnabled toggleName s)) = emitted s
         \<and> emitted (snd (getVariant toggleName s)) = emitted s"
proof -
  from assms have "find (\<lambda>t. name t = toggleName) (toggles s) = None"
    by (simp add: find_None_iff)
  then show ?thesis
    by (simp add: isEnabled_def getVariant_def metrics_count_def defaultVariant_def)
qed

theorem absent_toggle_witness:
  "toggles (demo_client\<lparr>toggles := [toggle_a]\<rparr>) = [toggle_a]
   \<and> name toggle_a \<noteq> ''flagB''
   \<and> fst (isEnabled ''flagB'' (demo_client\<lparr>toggles := [toggle_a]\<rparr>)) = False
   \<and> variant_name (fst (getVariant ''flagB'' (demo_client\<lparr>toggles := [toggle_a]\<rparr>))) = ''disabled''
   \<and> counted (snd (isEnabled ''flagB'' (demo_client\<lparr>toggles := [toggle_a]\<rparr>))) =
       [(''flagB'', False)]
   \<and> counted (snd (getVariant ''flagB'' (demo_client\<lparr>toggles := [toggle_a]\<rparr>))) =
       [(''flagB'', False)]
   \<and> emitted (snd (getVariant ''flagB'' (demo_client\<lparr>toggles := [toggle_a]\<rparr>))) = [INIT]"
  using absent_toggle [of "demo_client\<lparr>toggles := [toggle_a]\<rparr>" "''flagB''"]
  by (simp add: demo_client_def toggle_a_def)

section \<open>Synchronisation: the failure paths\<close>

text \<open>
  C4. \<^verbatim>\<open>fetchToggles\<close> always completes: nothing is thrown past it. With a fetch function
  at hand, on each failure path it emits exactly one event, an \<^verbatim>\<open>error\<close>, and leaves the
  toggles as they were: a response that is not ok and whose status is not 304 gives the
  payload \<^verbatim>\<open>{ type: 'HttpError', code: status }\<close>; a rejected request gives the rejection
  itself; so does an ok response whose body cannot be read.
\<close>

theorem fetchToggles_failure_paths:
  "fst (fetchToggles net s) = Resolved ()
   \<and> (\<forall>resp. fetch s \<and> net (fetch_request s) = Resolved resp \<and> \<not> ok resp
          \<and> status resp \<noteq> 304 \<longrightarrow>
         emitted (snd (fetchToggles net s)) = emitted s @ [ERROR (HttpError (status resp))]
         \<and> toggles (snd (fetchToggles net s)) = toggles s)
   \<and> (\<forall>e. fetch s \<and> net (fetch_request s) = Rejected e \<longrightarrow>
         emitted (snd (fetchToggles net s)) = emitted s @ [ERROR (Caught e)]
         \<and> toggles (snd (fetchToggles net s)) = toggles s)
   \<and> (\<forall>resp e. fetch s \<and> net (fetch_request s) = Resolved resp \<and> ok resp
          \<and> status resp \<noteq> 304 \<and> json resp = Rejected e \<longrightarrow>
         emitted (snd (fetchToggles net s)) = emitted s @ [ERROR (Caught e)]
         \<and> toggles (snd (fetchToggles net s)) = toggles s)"
  by (auto simp: fetchToggles_def fetchToggles_try_def emit_def console_log_def Let_def
      split: settled.splits prod.splits)

theorem fetchToggles_failure_paths_witness:
  "fetch (demo_client\<lparr>toggles := [toggle_a]\<rparr>)
   \<and> fetchToggles (answers (a_response False 500 None (Resolved [toggle_b])))
        (demo_client\<lparr>toggles := [toggle_a]\<rparr>) =
       (Resolved (),
        demo_client\<lparr>toggles := [toggle_a], emitted := [INIT, ERROR (HttpError 500)],
          console := [''Unleash: Fetching feature toggles did not have an ok response'']\<rparr>)
   \<and> fetchToggles (rejecting (Failure ''network''))
        (demo_client\<lparr>toggles := [toggle_a]\<rparr>) =
       (Resolved (),
        demo_client\<lparr>toggles := [toggle_a], emitted := [INIT, ERROR (Caught (Failure ''network''))],
          console := [''Unleash: unable to fetch feature toggles'']\<rparr>)
   \<and> fetchToggles (answers (a_response True 200 (Some ''v9'') (Rejected (Failure ''syntax''))))
        (demo_client\<lparr>toggles := [toggle_a]\<rparr>) =
       (Resolved (),
        demo_client\<lparr>toggles := [toggle_a], etag := ''v9'',
          emitted := [INIT, ERROR (Caught (Failure ''syntax''))],
          console := [''Unleash: unable to fetch feature toggles'']\<rparr>)"
  using fetchToggles_failure_paths [of "answers (a_response False 500 None (Resolved [toggle_b]))"
      "demo_client\<lparr>toggles := [toggle_a]\<rparr>"]
    fetchToggles_failure_paths [of "rejecting (Failure ''network'')"
      "demo_client\<lparr>toggles := [toggle_a]\<rparr>"]
    fetchToggles_failure_paths [of
      "answers (a_response True 200 (Some ''v9'') (Rejected (Failure ''syntax'')))"
      "demo_client\<lparr>toggles := [toggle_a]\<rparr>"]
  by (simp add: fetchToggles_def fetchToggles_try_def answers_def rejecting_def a_response_def
      demo_client_def emit_def console_log_def or_default_def)

section \<open>Synchronisation: a response that is not modified\<close>

text \<open>
  C5. When the response has status 304, \<^verbatim>\<open>fetchToggles\<close> leaves the client exactly as it
  was: the toggles, the \<^verbatim>\<open>etag\<close>, the storage and the list of emitted events are unchanged,
  so no \<^verbatim>\<open>update\<close>, \<^verbatim>\<open>ready\<close> or \<^verbatim>\<open>error\<close> is emitted and nothing is saved.
\<close>

theorem fetchToggles_not_modified:
  assumes "net (fetch_request s) = Resolved resp" and "status resp = 304"
  shows "fetchToggles net s = (Resolved (), s)
         \<and> toggles (snd (fetchToggles net s)) = toggles s
         \<and> etag (snd (fetchToggles net s)) = etag s
         \<and> storage (snd (fetchToggles net s)) = storage s
         \<and> emitted (snd (fetchToggles net s)) = emitted s"
  using assms by (simp add: fetchToggles_def fetchToggles_try_def)

theorem fetchToggles_not_modified_witness:
  "answers (a_response False 304 (Some ''v2'') (Resolved [toggle_b])) (fetch_request demo_client) =
     Resolved (a_response False 304 (Some ''v2'') (Resolved [toggle_b]))
   \<and> status (a_response False 304 (Some ''v2'') (Resolved [toggle_b])) = 304
   \<and> fetchToggles (answers (a_response False 304 (Some ''v2'') (Resolved [toggle_b]))) demo_client =
       (Resolved (), demo_client)
   \<and> emitted (snd (fetchToggles (answers (a_response False 304 (Some ''v2'') (Resolved [toggle_b])))
         demo_client)) = [INIT]"
  using fetchToggles_not_modified [of "answers (a_response False 304 (Some ''v2'') (Resolved [toggle_b]))"
      demo_client "a_response False 304 (Some ''v2'') (Resolved [toggle_b])"]
  by (simp add: answers_def a_response_def demo_client_def)

section \<open>Static context fields under setContextField\<close>

text \<open>
  \<^verbatim>\<open>setContextField\<close> cannot reach the static fields: a field that is not one of
  \<^verbatim>\<open>DEFINED_FIELDS\<close> is written into \<^verbatim>\<open>properties\<close>.
\<close>

lemma setContextField_keeps_static:
  assumes "distinct (keys (ctx s))" and "k = ''appName'' \<or> k = ''environment''"
  shows "obj_get (ctx (setContextField net field v s)) k = obj_get (ctx s) k"
proof -
  have "k \<notin> set DEFINED_FIELDS" and "k \<noteq> ''properties''"
    using assms(2) by (auto simp: DEFINED_FIELDS_def)
  moreover have "obj_get (obj_spread [] (ctx s)) k = obj_get (ctx s) k"
    using obj_get_spread [OF assms(1), of "[]" k] by (simp add: obj_get_def split: option.splits)
  ultimately show ?thesis
    by (auto simp: setContextField_def Let_def fetchToggles_ctx obj_get_set)
qed

section \<open>Static context fields\<close>

text \<open>
  C3. The claim that \<^verbatim>\<open>appName\<close> and \<^verbatim>\<open>environment\<close> keep their construction-time values
  under every \<^verbatim>\<open>updateContext\<close> does not hold of the code: \<^verbatim>\<open>updateContext\<close> writes the
  warning that they cannot be updated and then spreads the argument over the static
  fields, so the argument's \<^verbatim>\<open>appName\<close> replaces the one set at construction. Here the
  client constructed with \<^verbatim>\<open>appName: 'web'\<close> is given \<^verbatim>\<open>{ appName: 'other' }\<close>.
\<close>

theorem updateContext_overwrites_appName:
  "prop_of (ctx demo_client) ''appName'' = JStr ''web''
   \<and> snd (updateContext (rejecting (Failure ''offline'')) [(''appName'', JStr ''other'')] demo_client) =
       demo_client\<lparr>ctx := [(''environment'', JStr ''default''), (''appName'', JStr ''other'')],
         console := [''appName and environment are static. They can't be updated with updateContext.'']\<rparr>
   \<and> prop_of (ctx (snd (updateContext (rejecting (Failure ''offline''))
         [(''appName'', JStr ''other'')] demo_client))) ''appName'' = JStr ''other''"
  by (simp add: updateContext_def demo_client_def prop_of_def obj_get_def obj_literal_def
      obj_spread_def obj_set_def keys_def array_index_def is_digit_def console_log_def Let_def)

section \<open>Bootstrap and cache at initialisation\<close>

text \<open>
  C6, as the code has it. The constructor takes an empty bootstrap list for no
  bootstrap, so the claim holds of the non-empty ones. For a configuration that
  construction accepts and a storage that rejects nothing, once \<^verbatim>\<open>ready\<close> has resolved:
  with a non-empty bootstrap \<open>B\<close>, the toggles are \<open>B\<close> when the override flag is true (its
  default); they are the cached list \<open>C\<close> when the flag is false and a non-empty \<open>C\<close> was
  cached, and then only \<^verbatim>\<open>initialized\<close> is emitted and the cache is kept; and whenever
  \<open>B\<close> is adopted (the flag is true or the cache gave no toggles) \<open>B\<close> is what the storage
  holds under \<^verbatim>\<open>'repo'\<close> and \<^verbatim>\<open>ready\<close> is emitted, before \<^verbatim>\<open>initialized\<close>. With an
  empty bootstrap list the client is the one that the same configuration without a
  bootstrap gives: it keeps no bootstrap, its toggles are the loaded cache (none when
  nothing was cached), whatever the override flag, and only \<^verbatim>\<open>initialized\<close> is emitted.
\<close>

theorem init_bootstrap:
  assumes "construct cfg = Inr s0"
    and "get_rejects (cfg_storageProvider cfg) = []"
    and "save_rejects (cfg_storageProvider cfg) = []"
  shows "new_UnleashClient cfg rnd = Inr (ready rnd s0)
         \<and> (\<forall>B. cfg_bootstrap cfg = Some B \<and> B \<noteq> [] \<longrightarrow>
               (or_default (cfg_bootstrapOverride cfg) True \<longrightarrow> toggles (ready rnd s0) = B)
               \<and> (\<forall>C. cfg_bootstrapOverride cfg = Some False
                      \<and> map_of (contents (cfg_storageProvider cfg)) storeKey =
                          Some (StoredToggles C)
                      \<and> C \<noteq> [] \<longrightarrow>
                     toggles (ready rnd s0) = C \<and> emitted (ready rnd s0) = [INIT]
                     \<and> map_of (contents (storage (ready rnd s0))) storeKey =
                         Some (StoredToggles C))
               \<and> (or_default (cfg_bootstrapOverride cfg) True
                    \<or> or_default
                         (as_toggles (map_of (contents (cfg_storageProvider cfg)) storeKey)) [] = []
                    \<longrightarrow>
                     toggles (ready rnd s0) = B
                     \<and> map_of (contents (storage (ready rnd s0))) storeKey =
                         Some (StoredToggles B)
                     \<and> emitted (ready rnd s0) = [READY, INIT]))
         \<and> (cfg_bootstrap cfg = Some [] \<longrightarrow>
               new_UnleashClient cfg rnd = new_UnleashClient (cfg\<lparr>cfg_bootstrap := None\<rparr>) rnd
               \<and> bootstrap s0 = None
               \<and> toggles (ready rnd s0) =
                   or_default (as_toggles (map_of (contents (cfg_storageProvider cfg)) storeKey)) []
               \<and> emitted (ready rnd s0) = [INIT])"
proof -
  note c = construct_fields [OF assms(1)]
  let ?cache = "or_default (as_toggles (map_of (contents (storage s0)) storeKey)) []"
  have i: "fst (init rnd s0) = Resolved ()
         \<and> (case bootstrap s0 of
               Some b \<Rightarrow>
                 if bootstrapOverride s0 \<or> ?cache = []
                 then toggles (snd (init rnd s0)) = b
                      \<and> emitted (snd (init rnd s0)) = emitted s0 @ [READY, INIT]
                      \<and> map_of (contents (storage (snd (init rnd s0)))) storeKey =
                          Some (StoredToggles b)
                 else toggles (snd (init rnd s0)) = ?cache
                      \<and> emitted (snd (init rnd s0)) = emitted s0 @ [INIT]
                      \<and> map_of (contents (storage (snd (init rnd s0)))) storeKey =
                          map_of (contents (storage s0)) storeKey
             | None \<Rightarrow>
                 toggles (snd (init rnd s0)) = ?cache
                 \<and> emitted (snd (init rnd s0)) = emitted s0 @ [INIT])"
    using init_resolves [of s0 _ rnd, OF _ _ refl] assms(2,3) by (simp add: c(1))
  then have r: "ready rnd s0 = snd (init rnd s0)"
    by (cases "init rnd s0") (simp add: ready_def)
  have n: "new_UnleashClient cfg rnd = Inr (ready rnd s0)"
    by (simp add: new_UnleashClient_def assms(1))
  have nonempty: "(or_default (cfg_bootstrapOverride cfg) True \<longrightarrow> toggles (ready rnd s0) = B)
               \<and> (\<forall>C. cfg_bootstrapOverride cfg = Some False
                      \<and> map_of (contents (cfg_storageProvider cfg)) storeKey =
                          Some (StoredToggles C)
                      \<and> C \<noteq> [] \<longrightarrow>
                     toggles (ready rnd s0) = C \<and> emitted (ready rnd s0) = [INIT]
                     \<and> map_of (contents (storage (ready rnd s0))) storeKey =
                         Some (StoredToggles C))
               \<and> (or_default (cfg_bootstrapOverride cfg) True
                    \<or> or_default
                         (as_toggles (map_of (contents (cfg_storageProvider cfg)) storeKey)) [] = []
                    \<longrightarrow>
                     toggles (ready rnd s0) = B
                     \<and> map_of (contents (storage (ready rnd s0))) storeKey =
                         Some (StoredToggles B)
                     \<and> emitted (ready rnd s0) = [READY, INIT])"
    if "cfg_bootstrap cfg = Some B \<and> B \<noteq> []" for B
  proof -
    from that have b: "bootstrap s0 = Some B" by (simp add: c)
    from i show ?thesis
      by (auto simp: r b c or_default_def)
  qed
  have empty: "new_UnleashClient cfg rnd = new_UnleashClient (cfg\<lparr>cfg_bootstrap := None\<rparr>) rnd
               \<and> bootstrap s0 = None
               \<and> toggles (ready rnd s0) =
                   or_default (as_toggles (map_of (contents (cfg_storageProvider cfg)) storeKey)) []
               \<and> emitted (ready rnd s0) = [INIT]"
    if e: "cfg_bootstrap cfg = Some []"
  proof -
    from e have b: "bootstrap s0 = None" by (simp add: c)
    from i b have "toggles (ready rnd s0) = ?cache \<and> emitted (ready rnd s0) = [INIT]"
      by (simp add: r c(2))
    with b construct_empty_bootstrap [OF e] show ?thesis
      by (simp add: new_UnleashClient_def c(1))
  qed
  from n nonempty empty show ?thesis by blast
qed

theorem init_bootstrap_witness:
  "construct (config_with (Some [toggle_a]) (Some [toggle_b]) None) =
     Inr (demo_client\<lparr>toggles := [toggle_b], ctx := tl (ctx demo_client),
            storage := storage_with (Some [toggle_a]), bootstrap := Some [toggle_b],
            emitted := []\<rparr>)
   \<and> get_rejects (storage_with (Some [toggle_a])) = []
   \<and> save_rejects (storage_with (Some [toggle_a])) = []
   \<and> or_default (cfg_bootstrapOverride (config_with (Some [toggle_a]) (Some [toggle_b]) None)) True
   \<and> map_sum id toggles (new_UnleashClient (config_with (Some [toggle_a]) (Some [toggle_b]) None) 7) =
       Inr [toggle_b]
   \<and> map_sum id emitted (new_UnleashClient (config_with (Some [toggle_a]) (Some [toggle_b]) None) 7) =
       Inr [READY, INIT]
   \<and> map_sum id (\<lambda>s. map_of (contents (storage s)) storeKey)
         (new_UnleashClient (config_with (Some [toggle_a]) (Some [toggle_b]) None) 7) =
       Inr (Some (StoredToggles [toggle_b]))
   \<and> map_sum id toggles
         (new_UnleashClient (config_with (Some [toggle_a]) (Some [toggle_b]) (Some False)) 7) =
       Inr [toggle_a]
   \<and> cfg_bootstrap (config_with (Some [toggle_a]) (Some []) (Some True)) = Some []
   \<and> map_sum id toggles
         (new_UnleashClient (config_with (Some [toggle_a]) (Some []) (Some True)) 7) =
       Inr [toggle_a]
   \<and> map_sum id emitted
         (new_UnleashClient (config_with (Some [toggle_a]) (Some []) (Some True)) 7) =
       Inr [INIT]"
proof -
  have c: "construct (config_with (Some [toggle_a]) (Some [toggle_b]) None) =
     Inr (demo_client\<lparr>toggles := [toggle_b], ctx := tl (ctx demo_client),
            storage := storage_with (Some [toggle_a]), bootstrap := Some [toggle_b],
            emitted := []\<rparr>)"
    by (simp add: construct_def config_with_def demo_config_def demo_client_def storage_with_def
        obj_literal_def obj_spread_def obj_set_def keys_def array_index_def is_digit_def
        or_default_def)
  have c': "construct (config_with (Some [toggle_a]) (Some [toggle_b]) (Some False)) =
     Inr (demo_client\<lparr>toggles := [toggle_b], ctx := tl (ctx demo_client),
            storage := storage_with (Some [toggle_a]), bootstrap := Some [toggle_b],
            bootstrapOverride := False, emitted := []\<rparr>)"
    by (simp add: construct_def config_with_def demo_config_def demo_client_def storage_with_def
        obj_literal_def obj_spread_def obj_set_def keys_def array_index_def is_digit_def
        or_default_def)
  have e: "construct (config_with (Some [toggle_a]) (Some []) (Some True)) =
     Inr (demo_client\<lparr>ctx := tl (ctx demo_client), storage := storage_with (Some [toggle_a]),
            emitted := []\<rparr>)"
    by (simp add: construct_def config_with_def demo_config_def demo_client_def storage_with_def
        obj_literal_def obj_spread_def obj_set_def keys_def array_index_def is_digit_def
        or_default_def)
  show ?thesis
    using init_bootstrap [OF c, of 7] init_bootstrap [OF c', of 7] init_bootstrap [OF e, of 7] c
    by (simp add: config_with_def demo_config_def storage_with_def or_default_def storeKey_def)
qed

text \<open>
  The claim as stated fails for the empty bootstrap: with the override flag true and
  \<^verbatim>\<open>[flagA]\<close> in the cache, the toggles after initialisation are the cached ones and not
  the empty bootstrap.
\<close>

theorem empty_bootstrap_counterexample:
  "cfg_bootstrap (config_with (Some [toggle_a]) (Some []) (Some True)) = Some []
   \<and> cfg_bootstrapOverride (config_with (Some [toggle_a]) (Some []) (Some True)) = Some True
   \<and> map_sum id toggles (new_UnleashClient (config_with (Some [toggle_a]) (Some []) (Some True)) 7) =
       Inr [toggle_a]
   \<and> [toggle_a] \<noteq> []"
  by (simp add: new_UnleashClient_def ready_def init_def resolveSessionId_def construct_def
      config_with_def demo_config_def storage_with_def storage_get_def storage_save_def
      obj_literal_def obj_spread_def obj_set_def keys_def array_index_def is_digit_def
      prop_of_def obj_get_def or_default_def emit_def storeKey_def Let_def)

text \<open>
  When the storage rejects the save of the bootstrap, \<^verbatim>\<open>init\<close> is rejected after it has
  loaded the cache: the toggles are the cached ones, and the rejection is emitted as an
  \<^verbatim>\<open>error\<close> in place of \<^verbatim>\<open>ready\<close> and \<^verbatim>\<open>initialized\<close>.
\<close>

lemma init_save_rejected:
  "map_sum id (\<lambda>s. (toggles s, emitted s))
     (new_UnleashClient
        ((config_with (Some [toggle_a]) (Some [toggle_b]) (Some True))
           \<lparr>cfg_storageProvider :=
              (storage_with (Some [toggle_a]))\<lparr>save_rejects := [(''repo'', Failure ''quota'')]\<rparr>\<rparr>) 7) =
     Inr ([toggle_a], [ERROR (Caught (Failure ''quota''))])"
  by (simp add: new_UnleashClient_def ready_def init_def resolveSessionId_def construct_def
      config_with_def demo_config_def storage_with_def storage_get_def storage_save_def
      obj_literal_def obj_spread_def obj_set_def keys_def array_index_def is_digit_def
      prop_of_def obj_get_def or_default_def emit_def console_log_def storeKey_def Let_def)

section \<open>The cache revision marker\<close>

text \<open>
  C7, as the code has it. The \<^verbatim>\<open>etag\<close> of a newly constructed client is empty, also once
  \<^verbatim>\<open>ready\<close> has resolved. \<^verbatim>\<open>fetchToggles\<close> changes it only when a fetch function is at hand
  and answers with an ok response whose status is not 304, and then sets it to that
  response's \<^verbatim>\<open>ETag\<close> header, or to the empty string when the response has none; after any
  other answer, and after a rejected request, it is what it was. Evaluating a toggle and
  stopping the client leave it alone.
\<close>

theorem etag_lifecycle:
  "(\<forall>s0. new_UnleashClient cfg rnd = Inr s0 \<longrightarrow> etag s0 = [])
   \<and> etag (snd (fetchToggles net s)) =
       (case net (fetch_request s) of
          Resolved resp \<Rightarrow>
            if fetch s \<and> ok resp \<and> status resp \<noteq> 304
            then or_default (map_of (headers resp) ''ETag'') []
            else etag s
        | Rejected e \<Rightarrow> etag s)
   \<and> etag (snd (isEnabled toggleName s)) = etag s
   \<and> etag (snd (getVariant toggleName s)) = etag s
   \<and> etag (stop s) = etag s"
proof (intro conjI allI impI)
  fix s0 assume "new_UnleashClient cfg rnd = Inr s0"
  then show "etag s0 = []"
    by (auto simp: new_UnleashClient_def ready_etag construct_fields(5) split: sum.splits)
next
  show "etag (snd (fetchToggles net s)) =
       (case net (fetch_request s) of
          Resolved resp \<Rightarrow>
            if fetch s \<and> ok resp \<and> status resp \<noteq> 304
            then or_default (map_of (headers resp) ''ETag'') []
            else etag s
        | Rejected e \<Rightarrow> etag s)"
    by (auto simp: fetchToggles_def fetchToggles_try_def emit_def console_log_def Let_def
        dest: storeToggles_frame(2) split: settled.splits prod.splits)
next
  show "etag (snd (isEnabled toggleName s)) = etag s"
    by (simp add: isEnabled_def metrics_count_def emit_def Let_def split: option.splits)
  show "etag (snd (getVariant toggleName s)) = etag s"
    by (simp add: getVariant_def metrics_count_def emit_def Let_def split: option.splits)
  show "etag (stop s) = etag s"
    by (simp add: stop_def)
qed

theorem etag_lifecycle_witness:
  "new_UnleashClient demo_config 7 = Inr demo_client
   \<and> etag demo_client = []
   \<and> etag (snd (fetchToggles (answers (ok_response (Some ''v1'') [toggle_a])) demo_client)) = ''v1''
   \<and> etag (snd (fetchToggles (answers (a_response False 500 (Some ''v3'') (Resolved [])))
        (demo_client\<lparr>etag := ''v1''\<rparr>))) = ''v1''
   \<and> etag (snd (fetchToggles (rejecting (Failure ''network'')) (demo_client\<lparr>etag := ''v1''\<rparr>))) =
       ''v1''"
proof -
  have n: "new_UnleashClient demo_config 7 = Inr demo_client"
    by (simp add: new_UnleashClient_def ready_def init_def resolveSessionId_def construct_def
        demo_config_def demo_client_def storage_with_def storage_get_def storage_save_def
        obj_literal_def obj_spread_def obj_set_def keys_def array_index_def is_digit_def
        prop_of_def obj_get_def or_default_def emit_def storeKey_def Let_def)
  show ?thesis
    using n etag_lifecycle [of demo_config 7 "answers (ok_response (Some ''v1'') [toggle_a])"
        demo_client "''flagA''"]
      etag_lifecycle [of demo_config 7 "answers (a_response False 500 (Some ''v3'') (Resolved []))"
        "demo_client\<lparr>etag := ''v1''\<rparr>" "''flagA''"]
      etag_lifecycle [of demo_config 7 "rejecting (Failure ''network'')"
        "demo_client\<lparr>etag := ''v1''\<rparr>" "''flagA''"]
    by (simp add: answers_def rejecting_def ok_response_def a_response_def or_default_def
        demo_client_def)
qed

text \<open>
  The claim as stated fails: after a response has set the marker to \<^verbatim>\<open>v1\<close>, a later ok
  response without an \<^verbatim>\<open>ETag\<close> header sets it back to the empty string.
\<close>

theorem etag_reset_counterexample:
  "etag (snd (fetchToggles (answers (ok_response (Some ''v1'') [toggle_a])) demo_client)) = ''v1''
   \<and> etag (snd (fetchToggles (answers (ok_response None [toggle_b]))
        (snd (fetchToggles (answers (ok_response (Some ''v1'') [toggle_a])) demo_client)))) = []"
  by (simp add: fetchToggles_def fetchToggles_try_def storeToggles_def storage_save_def
      answers_def ok_response_def demo_client_def emit_def or_default_def Let_def)

section \<open>The request URL\<close>

text \<open>
  C8. The URL that \<^verbatim>\<open>fetchToggles\<close> requests has the base of the configured URL and its
  query parameters followed by those of the context, \<open>context_query\<close>, in the order of the
  context's fields. Every defined (non-null, non-undefined) field other than
  \<^verbatim>\<open>properties\<close> is there under its own name with its value. Every parameter comes either
  from such a defined field or from a defined entry of \<^verbatim>\<open>properties\<close>. When
  \<^verbatim>\<open>properties\<close> is an object, each of its defined entries is there as
  \<^verbatim>\<open>properties[key]\<close> with the entry's value, and no parameter is named \<^verbatim>\<open>properties\<close>:
  the object itself is never serialised. (An entry of \<^verbatim>\<open>properties\<close> whose value is
  \<^verbatim>\<open>undefined\<close> or \<^verbatim>\<open>null\<close>, which its type excludes, is skipped like a field is.)
\<close>

theorem query_of_context:
  "searchParams (urlWithQuery s) = searchParams (url s) @ context_query (ctx s)
   \<and> base (urlWithQuery s) = base (url s)
   \<and> req_url (fetch_request s) = urlWithQuery s
   \<and> (\<forall>k v. (k, v) \<in> set (ctx s) \<and> v \<noteq> JUndefined \<and> v \<noteq> JNull \<and> k \<noteq> ''properties'' \<longrightarrow>
         (k, toString v) \<in> set (context_query (ctx s)))
   \<and> (\<forall>n x. (n, x) \<in> set (context_query (ctx s)) \<longrightarrow>
         (\<exists>v. (n, v) \<in> set (ctx s) \<and> v \<noteq> JUndefined \<and> v \<noteq> JNull \<and> x = toString v
              \<and> \<not> (n = ''properties'' \<and> truthy v))
         \<or> (\<exists>v pk pv. (''properties'', v) \<in> set (ctx s) \<and> truthy v
              \<and> (pk, pv) \<in> set (own_entries v) \<and> pv \<noteq> JUndefined \<and> pv \<noteq> JNull
              \<and> n = ''properties['' @ pk @ '']'' \<and> x = toString pv))
   \<and> (\<forall>ps pk pv. (''properties'', JObj ps) \<in> set (ctx s) \<and> (pk, pv) \<in> set ps
          \<and> pv \<noteq> JUndefined \<and> pv \<noteq> JNull \<longrightarrow>
         (''properties['' @ pk @ '']'', toString pv) \<in> set (context_query (ctx s)))
   \<and> (\<forall>ps. distinct (keys (ctx s)) \<and> (''properties'', JObj ps) \<in> set (ctx s) \<longrightarrow>
         ''properties'' \<notin> fst ` set (context_query (ctx s)))"
proof (intro conjI allI impI)
  show "searchParams (urlWithQuery s) = searchParams (url s) @ context_query (ctx s)"
    by (simp add: urlWithQuery_def append_context_eq)
  show "base (urlWithQuery s) = base (url s)"
    by (simp add: urlWithQuery_def)
  show "req_url (fetch_request s) = urlWithQuery s"
    by (simp add: fetch_request_def)
next
  fix k v
  assume "(k, v) \<in> set (ctx s) \<and> v \<noteq> JUndefined \<and> v \<noteq> JNull \<and> k \<noteq> ''properties''"
  then show "(k, toString v) \<in> set (context_query (ctx s))"
    by (force simp: context_query_def field_parameters_def notNullOrUndefined_def)
next
  fix n x
  assume "(n, x) \<in> set (context_query (ctx s))"
  then obtain k v where kv: "(k, v) \<in> set (ctx s)" "v \<noteq> JUndefined" "v \<noteq> JNull"
    and nx: "(n, x) \<in> set (field_parameters (k, v))"
    by (auto simp: context_query_def notNullOrUndefined_def)
  show "(\<exists>v. (n, v) \<in> set (ctx s) \<and> v \<noteq> JUndefined \<and> v \<noteq> JNull \<and> x = toString v
              \<and> \<not> (n = ''properties'' \<and> truthy v))
         \<or> (\<exists>v pk pv. (''properties'', v) \<in> set (ctx s) \<and> truthy v
              \<and> (pk, pv) \<in> set (own_entries v) \<and> pv \<noteq> JUndefined \<and> pv \<noteq> JNull
              \<and> n = ''properties['' @ pk @ '']'' \<and> x = toString pv)"
  proof (cases "k = ''properties'' \<and> truthy v")
    case True
    with nx obtain pk pv where "(pk, pv) \<in> set (own_entries v)" "pv \<noteq> JUndefined" "pv \<noteq> JNull"
      "n = ''properties['' @ pk @ '']''" "x = toString pv"
      by (auto simp: field_parameters_def property_parameters_def notNullOrUndefined_def)
    with True kv show ?thesis by blast
  next
    case False
    with nx have "n = k" "x = toString v"
      by (auto simp: field_parameters_def)
    with False kv show ?thesis by blast
  qed
next
  fix ps pk pv
  assume a: "(''properties'', JObj ps) \<in> set (ctx s) \<and> (pk, pv) \<in> set ps
          \<and> pv \<noteq> JUndefined \<and> pv \<noteq> JNull"
  then have "(''properties['' @ pk @ '']'', toString pv)
      \<in> set (field_parameters (''properties'', JObj ps))"
    by (force simp: field_parameters_def property_parameters_def notNullOrUndefined_def)
  moreover from a have "(''properties'', JObj ps) \<in> set (filter notNullOrUndefined (ctx s))"
    by (simp add: notNullOrUndefined_def)
  ultimately show "(''properties['' @ pk @ '']'', toString pv) \<in> set (context_query (ctx s))"
    unfolding context_query_def by auto
next
  fix ps
  assume a: "distinct (keys (ctx s)) \<and> (''properties'', JObj ps) \<in> set (ctx s)"
  show "''properties'' \<notin> fst ` set (context_query (ctx s))"
  proof
    assume "''properties'' \<in> fst ` set (context_query (ctx s))"
    then obtain x k v where kv: "(k, v) \<in> set (ctx s)"
      and nx: "(''properties'', x) \<in> set (field_parameters (k, v))"
      by (auto simp: context_query_def)
    show False
    proof (cases "k = ''properties''")
      case True
      with a kv have "v = JObj ps"
        by (metis keys_def eq_key_imp_eq_value)
      with True nx show False
        by (auto simp: field_parameters_def property_parameters_def)
    next
      case False
      with nx show False
        by (auto simp: field_parameters_def property_parameters_def split: if_splits)
    qed
  qed
qed

theorem query_of_context_witness:
  "ctx (demo_client\<lparr>ctx := ctx demo_client @ [(''remoteAddress'', JUndefined)]\<rparr>) =
     [(''sessionId'', JNum 7), (''appName'', JStr ''web''), (''environment'', JStr ''default''),
      (''userId'', JStr ''u1''), (''properties'', JObj [(''plan'', JStr ''pro'')]),
      (''remoteAddress'', JUndefined)]
   \<and> distinct (keys (ctx (demo_client\<lparr>ctx := ctx demo_client @ [(''remoteAddress'', JUndefined)]\<rparr>)))
   \<and> searchParams (urlWithQuery
        (demo_client\<lparr>ctx := ctx demo_client @ [(''remoteAddress'', JUndefined)]\<rparr>)) =
       [(''sessionId'', ''7''), (''appName'', ''web''), (''environment'', ''default''),
        (''userId'', ''u1''), (''properties[plan]'', ''pro'')]
   \<and> (''userId'', ''u1'') \<in> set (context_query
        (ctx (demo_client\<lparr>ctx := ctx demo_client @ [(''remoteAddress'', JUndefined)]\<rparr>)))
   \<and> (''properties[plan]'', ''pro'') \<in> set (context_query
        (ctx (demo_client\<lparr>ctx := ctx demo_client @ [(''remoteAddress'', JUndefined)]\<rparr>)))
   \<and> ''properties'' \<notin> fst ` set (context_query
        (ctx (demo_client\<lparr>ctx := ctx demo_client @ [(''remoteAddress'', JUndefined)]\<rparr>)))"
  using query_of_context
    [of "demo_client\<lparr>ctx := ctx demo_client @ [(''remoteAddress'', JUndefined)]\<rparr>"]
  by (simp add: demo_client_def keys_def context_query_def field_parameters_def
      property_parameters_def notNullOrUndefined_def decimal.simps [of 7])

section \<open>The ready event over a lifetime\<close>

text \<open>
  Whatever is done with a client, it emits \<^verbatim>\<open>ready\<close> at most once: \<^verbatim>\<open>init\<close> emits it only
  when a bootstrap is configured, \<^verbatim>\<open>fetchToggles\<close> only when none is and
  \<^verbatim>\<open>readyEventEmitted\<close> is still false, which it then sets.
\<close>

lemma storeToggles_emitted:
  assumes "storeToggles ts s = (r, s')"
  shows "emitted s' = emitted s @ [UPDATE]"
  using assms
  by (auto simp: storeToggles_def storage_save_def emit_def Let_def split: option.splits)

lemma fetchToggles_try_latch:
  assumes "fetchToggles_try net s = (r, s')" and "ready_latch s"
  shows "ready_latch s'" and "bootstrap s' = bootstrap s"
  using assms
  by (auto simp: fetchToggles_try_def ready_latch_def emit_def console_log_def Let_def
      dest: storeToggles_frame(3,4) storeToggles_emitted
      split: settled.splits prod.splits if_splits)

lemma fetchToggles_latch:
  assumes "ready_latch s"
  shows "ready_latch (snd (fetchToggles net s))"
proof (cases "fetchToggles_try net s")
  case (Pair r s')
  from fetchToggles_try_latch [OF Pair assms] assms Pair show ?thesis
    by (auto simp: fetchToggles_def ready_latch_def emit_def console_log_def
        split: settled.splits)
qed

lemma ready_latch_cong:
  assumes "emitted s' = emitted s \<or> (\<exists>i. emitted s' = emitted s @ [IMPRESSION i])"
    and "bootstrap s' = bootstrap s" and "readyEventEmitted s' = readyEventEmitted s"
    and "ready_latch s"
  shows "ready_latch s'"
  using assms by (auto simp: ready_latch_def)

lemma step_latch:
  assumes "ready_latch s"
  shows "ready_latch (step a s)"
proof (cases a)
  case (Start net)
  have "ready_latch (snd (fetchToggles net s)\<lparr>timerRef := True\<rparr>)"
    using fetchToggles_latch [OF assms, of net] by (simp add: ready_latch_def)
  with assms fetchToggles_latch [OF assms, of net] Start show ?thesis
    by (simp add: start_def Let_def console_log_def ready_latch_def)
next
  case Stop
  with assms show ?thesis by (simp add: stop_def ready_latch_def)
next
  case (Tick net)
  with assms fetchToggles_latch [OF assms, of net] show ?thesis by simp
next
  case (UpdateContext net p)
  let ?s2 = "(if truthy (prop_of p ''appName'') \<or> truthy (prop_of p ''environment'')
              then console_log ''appName and environment are static. They can't be updated with updateContext.'' s
              else s)\<lparr>ctx := obj_spread (obj_spread [] (obj_literal
                 [(''environment'', prop_of (ctx s) ''environment''),
                  (''appName'', prop_of (ctx s) ''appName'')])) p\<rparr>"
  from assms have l: "ready_latch ?s2"
    by (simp add: ready_latch_def console_log_def)
  have "step a s = (if timerRef s then snd (fetchToggles net ?s2) else ?s2)"
    by (simp add: UpdateContext updateContext_def Let_def console_log_def)
  with l fetchToggles_latch [OF l, of net] show ?thesis by simp
next
  case (SetContextField net field v)
  let ?s1 = "(if field \<in> set DEFINED_FIELDS
                then s\<lparr>ctx := obj_set (obj_spread [] (ctx s)) field v\<rparr>
                else s\<lparr>ctx := obj_set (obj_spread [] (ctx s)) ''properties''
                       (JObj (obj_set (obj_spread [] (own_entries (prop_of (ctx s) ''properties'')))
                          field v))\<rparr>)"
  from assms have l: "ready_latch ?s1"
    by (simp add: ready_latch_def)
  have "step a s = (if timerRef ?s1 then snd (fetchToggles net ?s1) else ?s1)"
    by (simp add: SetContextField setContextField_def Let_def)
  with l fetchToggles_latch [OF l, of net] show ?thesis by simp
next
  case (IsEnabled n)
  with assms show ?thesis
    by (auto simp: isEnabled_def metrics_count_def emit_def Let_def ready_latch_def
        split: option.splits)
next
  case (GetVariant n)
  with assms show ?thesis
    by (auto simp: getVariant_def metrics_count_def emit_def Let_def ready_latch_def
        split: option.splits)
qed

lemma run_latch: "ready_latch s \<Longrightarrow> ready_latch (run acts s)"
  unfolding run_def by (induction acts arbitrary: s) (auto intro: step_latch)

lemma init_emitted:
  assumes "init rnd s = (r, s')" and "emitted s = []"
  shows "bootstrap s' = bootstrap s \<and> readyEventEmitted s' = readyEventEmitted s
         \<and> (case r of
               Resolved u \<Rightarrow> emitted s' = [INIT] \<or> (emitted s' = [READY, INIT] \<and> bootstrap s \<noteq> None)
             | Rejected e \<Rightarrow> emitted s' = [])"
proof -
  obtain r1 s1 where r1: "resolveSessionId rnd s = (r1, s1)"
    by (cases "resolveSessionId rnd s")
  from assms r1 resolveSessionId_frame(3,5,7) [OF r1] show ?thesis
    by (auto simp: init_def emit_def Let_def
        split: settled.splits prod.splits option.splits if_splits)
qed

lemma new_client_latch:
  assumes "new_UnleashClient cfg rnd = Inr s"
  shows "ready_latch s"
proof -
  from assms obtain s0 where c: "construct cfg = Inr s0" and s: "s = ready rnd s0"
    by (auto simp: new_UnleashClient_def split: sum.splits)
  obtain r s' where i: "init rnd s0 = (r, s')"
    by (cases "init rnd s0")
  from init_emitted [OF i construct_fields(2) [OF c]] i show ?thesis
    by (auto simp: s ready_def ready_latch_def emit_def console_log_def split: settled.splits)
qed

lemma ready_at_most_once:
  assumes "new_UnleashClient cfg rnd = Inr s"
  shows "count_list (emitted (run acts s)) READY \<le> 1"
  using run_latch [OF new_client_latch [OF assms], of acts] by (simp add: ready_latch_def)

section \<open>The ready event\<close>

text \<open>
  C9. The claim that \<^verbatim>\<open>ready\<close> is emitted on the first successful synchronisation when no
  bootstrap was applied does not hold of the code. A client configured with a bootstrap
  and \<^verbatim>\<open>bootstrapOverride: false\<close> that finds toggles in its cache does not apply the
  bootstrap, so \<^verbatim>\<open>init\<close> emits only \<^verbatim>\<open>initialized\<close>; and since \<^verbatim>\<open>fetchToggles\<close> emits
  \<^verbatim>\<open>ready\<close> only when no bootstrap was configured, its successful synchronisations emit
  \<^verbatim>\<open>update\<close> alone. Such a client never emits \<^verbatim>\<open>ready\<close>.
\<close>

theorem skipped_bootstrap_never_ready:
  "map_sum id emitted
     (new_UnleashClient (config_with (Some [toggle_a]) (Some [toggle_b]) (Some False)) 7) =
     Inr [INIT]
   \<and> map_sum id toggles
     (new_UnleashClient (config_with (Some [toggle_a]) (Some [toggle_b]) (Some False)) 7) =
     Inr [toggle_a]
   \<and> map_sum id (\<lambda>s. emitted (start (answers (ok_response (Some ''v1'') [toggle_a, toggle_b])) s))
     (new_UnleashClient (config_with (Some [toggle_a]) (Some [toggle_b]) (Some False)) 7) =
     Inr [INIT, UPDATE]
   \<and> map_sum id (\<lambda>s. emitted (snd (fetchToggles (answers (ok_response (Some ''v2'') [toggle_b]))
        (start (answers (ok_response (Some ''v1'') [toggle_a, toggle_b])) s))))
     (new_UnleashClient (config_with (Some [toggle_a]) (Some [toggle_b]) (Some False)) 7) =
     Inr [INIT, UPDATE, UPDATE]"
  by (simp add: new_UnleashClient_def ready_def init_def resolveSessionId_def construct_def
      config_with_def demo_config_def storage_with_def storage_get_def storage_save_def
      obj_literal_def obj_spread_def obj_set_def keys_def array_index_def is_digit_def
      prop_of_def obj_get_def or_default_def emit_def storeKey_def Let_def
      start_def fetchToggles_def fetchToggles_try_def storeToggles_def answers_def ok_response_def)

section \<open>Replacing the mutable context\<close>

text \<open>
  C10. \<^verbatim>\<open>updateContext(p)\<close> completes, and the context it leaves is the two static fields
  \<^verbatim>\<open>environment\<close> and \<^verbatim>\<open>appName\<close>, with the values the context had, overlaid with the
  fields of \<open>p\<close>: a field reads as \<open>p\<close> has it, else as the static value if it is one of
  the two, and else is absent. So every other field that \<open>p\<close> does not have, the
  \<^verbatim>\<open>sessionId\<close> merged in by \<^verbatim>\<open>init\<close>, \<^verbatim>\<open>userId\<close>, \<^verbatim>\<open>remoteAddress\<close> and \<^verbatim>\<open>properties\<close>
  among them, is removed.
\<close>

theorem updateContext_replaces:
  assumes "distinct (keys p)"
  shows "fst (updateContext net p s) = Resolved ()
         \<and> ctx (snd (updateContext net p s)) =
             obj_spread [(''environment'', prop_of (ctx s) ''environment''),
                         (''appName'', prop_of (ctx s) ''appName'')] p
         \<and> (\<forall>k. obj_get (ctx (snd (updateContext net p s))) k =
               (case obj_get p k of
                  Some v \<Rightarrow> Some v
                | None \<Rightarrow> if k = ''appName'' \<or> k = ''environment''
                          then Some (prop_of (ctx s) k) else None))
         \<and> (\<forall>k. k \<notin> set (keys p) \<and> k \<noteq> ''appName'' \<and> k \<noteq> ''environment'' \<longrightarrow>
               obj_get (ctx (snd (updateContext net p s))) k = None)"
proof -
  have c: "ctx (snd (updateContext net p s)) =
             obj_spread [(''environment'', prop_of (ctx s) ''environment''),
                         (''appName'', prop_of (ctx s) ''appName'')] p"
    by (simp add: updateContext_def Let_def fetchToggles_ctx staticContext_literal console_log_def)
  have r: "fst (updateContext net p s) = Resolved ()"
    by (simp add: updateContext_def Let_def fetchToggles_def split: prod.splits settled.splits)
  have g: "obj_get (ctx (snd (updateContext net p s))) k =
               (case obj_get p k of
                  Some v \<Rightarrow> Some v
                | None \<Rightarrow> if k = ''appName'' \<or> k = ''environment''
                          then Some (prop_of (ctx s) k) else None)" for k
    unfolding c obj_get_spread [OF assms]
    by (auto simp: obj_get_def split: option.splits)
  have n: "obj_get p k = None" if "k \<notin> set (keys p)" for k
    using that by (simp add: obj_get_def keys_def map_of_eq_None_iff)
  show ?thesis
    using c r g n by simp
qed

theorem updateContext_replaces_witness:
  "distinct (keys [(''userId'', JStr ''u2'')])
   \<and> obj_get (ctx demo_client) ''sessionId'' = Some (JNum 7)
   \<and> ctx (snd (updateContext (rejecting (Failure ''offline'')) [(''userId'', JStr ''u2'')] demo_client)) =
       [(''environment'', JStr ''default''), (''appName'', JStr ''web''), (''userId'', JStr ''u2'')]
   \<and> obj_get (ctx (snd (updateContext (rejecting (Failure ''offline'')) [(''userId'', JStr ''u2'')]
         demo_client))) ''sessionId'' = None
   \<and> obj_get (ctx (snd (updateContext (rejecting (Failure ''offline'')) [(''userId'', JStr ''u2'')]
         demo_client))) ''properties'' = None"
  using updateContext_replaces [of "[(''userId'', JStr ''u2'')]" "rejecting (Failure ''offline'')"
      demo_client]
  by (simp add: keys_def demo_client_def obj_get_def prop_of_def obj_spread_def obj_set_def
      array_index_def is_digit_def)

end
